theory Spec2Isabelle
  imports Main
begin

text \<open>
  The marketing assistant's API settings: the compiled-in configuration table of
  \<^verbatim>\<open>services/config.ts\<close> with its two helpers, and the settings panel of
  \<^verbatim>\<open>components/APISettings.tsx\<close>, which loads the status of every catalogued service,
  sends a configuration to the server and simulates a connection test. The handlers of the
  panel are functions on the component's state; what the server answers is an argument.
\<close>

section \<open>services/config.ts: the compiled-in API configuration\<close>

text \<open>
  \<^verbatim>\<open>process.env\<close> is a dictionary from variable names to strings; a variable that is not
  set reads as \<^verbatim>\<open>undefined\<close>.
\<close>

type_synonym env = "string \<Rightarrow> string option"

text \<open>
  \<^verbatim>\<open>process.env.X || ''\<close>: \<^verbatim>\<open>undefined\<close> and the empty string are both falsy, so both
  give the empty string; every other value is kept.
\<close>

definition envOr :: "env \<Rightarrow> string \<Rightarrow> string" where
  "envOr e x = (case e x of None \<Rightarrow> [] | Some v \<Rightarrow> (if v = [] then [] else v))"

text \<open>
  \<^verbatim>\<open>API_CONFIG\<close> is an object literal: its entries and the fields of each entry keep
  their declaration order under \<^verbatim>\<open>Object.entries\<close> and \<^verbatim>\<open>Object.values\<close>, so both levels
  are association lists.
\<close>

definition API_CONFIG :: "env \<Rightarrow> (string \<times> (string \<times> string) list) list" where
  "API_CONFIG e =
   [(''anthropic'',
       [(''apiKey'', envOr e ''REACT_APP_ANTHROPIC_API_KEY''),
        (''baseUrl'', ''https://api.anthropic.com/v1'')]),
    (''openai'',
       [(''apiKey'', envOr e ''REACT_APP_OPENAI_API_KEY''),
        (''baseUrl'', ''https://api.openai.com/v1'')]),
    (''instagram'',
       [(''accessToken'', envOr e ''REACT_APP_INSTAGRAM_ACCESS_TOKEN''),
        (''baseUrl'', ''https://graph.instagram.com/v17.0'')]),
    (''facebook'',
       [(''accessToken'', envOr e ''REACT_APP_FACEBOOK_ACCESS_TOKEN''),
        (''baseUrl'', ''https://graph.facebook.com/v17.0'')]),
    (''twitter'',
       [(''apiKey'', envOr e ''REACT_APP_TWITTER_API_KEY''),
        (''apiSecret'', envOr e ''REACT_APP_TWITTER_API_SECRET''),
        (''accessToken'', envOr e ''REACT_APP_TWITTER_ACCESS_TOKEN''),
        (''accessSecret'', envOr e ''REACT_APP_TWITTER_ACCESS_SECRET''),
        (''baseUrl'', ''https://api.twitter.com/2'')]),
    (''tiktok'',
       [(''apiKey'', envOr e ''REACT_APP_TIKTOK_API_KEY''),
        (''baseUrl'', ''https://open-api.tiktok.com/v1.3'')]),
    (''threads'',
       [(''accessToken'', envOr e ''REACT_APP_THREADS_ACCESS_TOKEN''),
        (''baseUrl'', ''https://graph.threads.net/v1.0'')]),
    (''bluesky'',
       [(''identifier'', envOr e ''REACT_APP_BLUESKY_IDENTIFIER''),
        (''password'', envOr e ''REACT_APP_BLUESKY_PASSWORD''),
        (''baseUrl'', ''https://bsky.social/xrpc'')]),
    (''midjourney'',
       [(''apiKey'', envOr e ''REACT_APP_MIDJOURNEY_API_KEY''),
        (''baseUrl'', ''https://api.midjourney.com/v1'')]),
    (''dalle'',
       [(''apiKey'', envOr e ''REACT_APP_DALL_E_API_KEY''),
        (''baseUrl'', ''https://api.openai.com/v1'')]),
    (''stability'',
       [(''apiKey'', envOr e ''REACT_APP_STABILITY_API_KEY''),
        (''baseUrl'', ''https://api.stability.ai/v1'')]),
    (''ayrshare'',
       [(''apiKey'', envOr e ''REACT_APP_AYRSHARE_API_KEY''),
        (''baseUrl'', ''https://app.ayrshare.com/api'')]),
    (''buffer'',
       [(''accessToken'', envOr e ''REACT_APP_BUFFER_ACCESS_TOKEN''),
        (''baseUrl'', ''https://api.bufferapp.com/1'')]),
    (''hootsuite'',
       [(''accessToken'', envOr e ''REACT_APP_HOOTSUITE_ACCESS_TOKEN''),
        (''baseUrl'', ''https://platform.hootsuite.com/v1'')]),
    (''googleAnalytics'',
       [(''id'', envOr e ''REACT_APP_GOOGLE_ANALYTICS_ID'')]),
    (''facebookPixel'',
       [(''id'', envOr e ''REACT_APP_FACEBOOK_PIXEL_ID'')]),
    (''mailchimp'',
       [(''apiKey'', envOr e ''REACT_APP_MAILCHIMP_API_KEY''),
        (''baseUrl'', ''https://us1.api.mailchimp.com/3.0'')]),
    (''convertkit'',
       [(''apiKey'', envOr e ''REACT_APP_CONVERTKIT_API_KEY''),
        (''baseUrl'', ''https://api.convertkit.com/v3'')]),
    (''amazon'',
       [(''apiKey'', envOr e ''REACT_APP_AMAZON_API_KEY''),
        (''baseUrl'', ''https://webservices.amazon.com/paapi5'')]),
    (''bookbub'',
       [(''apiKey'', envOr e ''REACT_APP_BOOKBUB_API_KEY''),
        (''baseUrl'', ''https://partners.bookbub.com/api/v1'')])]"

text \<open>\<^verbatim>\<open>Object.values(config).some(value => value !== '')\<close>\<close>

definition someNonEmpty :: "(string \<times> string) list \<Rightarrow> bool" where
  "someNonEmpty config = list_ex (\<lambda>v. v \<noteq> []) (map snd config)"

text \<open>
  \<^verbatim>\<open>isConfigured\<close>: the lookup \<^verbatim>\<open>API_CONFIG[service]\<close> is \<^verbatim>\<open>undefined\<close> for a name that is
  not a key, and then the guard \<^verbatim>\<open>if (!config) return false\<close> answers.
\<close>

definition isConfigured :: "env \<Rightarrow> string \<Rightarrow> bool" where
  "isConfigured e service =
     (case map_of (API_CONFIG e) service of
        None \<Rightarrow> False
      | Some config \<Rightarrow> someNonEmpty config)"

text \<open>
  \<^verbatim>\<open>getMissingConfigs\<close>: the \<^verbatim>\<open>forEach\<close> over \<^verbatim>\<open>Object.entries(API_CONFIG)\<close> is a left fold
  whose accumulator is the array \<^verbatim>\<open>missing\<close>; \<^verbatim>\<open>push\<close> appends at the end.
\<close>

definition pushMissing :: "string list \<Rightarrow> string \<times> (string \<times> string) list \<Rightarrow> string list" where
  "pushMissing missing entry =
     (let hasValidConfig = someNonEmpty (snd entry)
      in if \<not> hasValidConfig then missing @ [fst entry] else missing)"

definition getMissingConfigs :: "env \<Rightarrow> string list" where
  "getMissingConfigs e = foldl pushMissing [] (API_CONFIG e)"

section \<open>components/APISettings.tsx: the API settings panel\<close>

subsection \<open>Data\<close>

text \<open>\<^verbatim>\<open>APIService.status\<close> is \<^verbatim>\<open>'connected' | 'disconnected' | 'error'\<close>.\<close>

datatype status = Connected | Disconnected | Error

record APIService =
  name :: string
  category :: string
  description :: string
  status :: status
  enabled :: bool
  configured :: bool

text \<open>The body of the configure request, \<^verbatim>\<open>{service, apiKey, additionalConfig}\<close>.\<close>

datatype APIConfiguration =
  APIConfiguration (cfgService: string) (cfgApiKey: string) (cfgAdditionalConfig: "string \<Rightarrow> string option")

text \<open>
  One entry of \<^verbatim>\<open>serviceCategories\<close>: title, icon name, colour, and the services of the
  category with their descriptions, in declaration order.
\<close>

datatype categoryInfo =
  CategoryInfo (title: string) (iconName: string) (color: string)
               (catServices: "(string \<times> string) list")

definition serviceCategories :: "(string \<times> categoryInfo) list" where
  "serviceCategories =
   [(''ai_services'', CategoryInfo ''AI Services'' ''CloudIcon'' ''#8b5cf6''
       [(''anthropic'', ''Claude AI for content generation''),
        (''openai'', ''DALL-E 3 for image generation'')]),
    (''social_media'', CategoryInfo ''Social Media'' ''ShareIcon'' ''#f97316''
       [(''instagram'', ''Instagram Business API''),
        (''facebook'', ''Facebook Graph API''),
        (''twitter'', ''Twitter API v2''),
        (''tiktok'', ''TikTok for Business API''),
        (''threads'', ''Threads API''),
        (''bluesky'', ''Bluesky API'')]),
    (''analytics'', CategoryInfo ''Analytics'' ''AnalyticsIcon'' ''#06b6d4''
       [(''google_analytics'', ''Google Analytics 4''),
        (''facebook_pixel'', ''Facebook Pixel tracking'')]),
    (''book_platforms'', CategoryInfo ''Book Platforms'' ''BookIcon'' ''#10b981''
       [(''amazon_kdp'', ''Amazon KDP sales tracking''),
        (''bookbub'', ''BookBub advertising API'')]),
    (''email_marketing'', CategoryInfo ''Email Marketing'' ''EmailIcon'' ''#f59e0b''
       [(''mailchimp'', ''Mailchimp email campaigns''),
        (''convertkit'', ''ConvertKit email automation'')]),
    (''author_settings'', CategoryInfo ''Author Settings'' ''SecurityIcon'' ''#6366f1''
       [(''author_email'', ''Author email for reports and notifications''),
        (''notification_preferences'', ''Email notification settings'')])]"

text \<open>The component's state variables that are objects.\<close>

datatype configDialog = ConfigDialog (dlgOpen: bool) (dlgService: string) (dlgCategory: string)

datatype severity = SevSuccess | SevError | SevWarning | SevInfo

datatype snackbar = Snackbar (snackOpen: bool) (snackMessage: string) (snackSeverity: severity)

text \<open>
  What the component does to the outside: the two requests it sends, the timer it starts
  and what it writes to the console (the fixed text and the error that was caught).
\<close>

datatype effect =
    FetchStatus
  | FetchConfigure APIConfiguration
  | SetTimeout nat
  | ConsoleError string string

text \<open>
  The \<^verbatim>\<open>useState\<close> variables of the component, and \<open>effects\<close>, the calls made to the
  outside so far, oldest first.
\<close>

record state =
  services :: "APIService list"
  loading :: bool
  configDialog :: configDialog
  apiKey :: string
  showApiKey :: bool
  additionalConfig :: "string \<Rightarrow> string option"
  snackbar :: snackbar
  testingConnection :: bool
  effects :: "effect list"

text \<open>The state of the freshly mounted component, before its first status load.\<close>

definition initialState :: state where
  "initialState =
     \<lparr>services = [], loading = True, configDialog = ConfigDialog False [] [],
      apiKey = [], showApiKey = False, additionalConfig = Map.empty,
      snackbar = Snackbar False [] SevInfo, testingConnection = False, effects = []\<rparr>"

subsection \<open>What the server answers\<close>

text \<open>
  One entry of the status answer, \<^verbatim>\<open>{enabled, configured, status}\<close>; the status is the
  server's own word (the component compares it with \<^verbatim>\<open>'ready'\<close> only).
\<close>

datatype serviceStatus =
  ServiceStatus (ssEnabled: bool) (ssConfigured: bool) (ssStatus: string)

text \<open>
  The outcome of \<^verbatim>\<open>fetch(API_ENDPOINTS.STATUS)\<close> followed by \<^verbatim>\<open>response.json()\<close>: either of
  them throws (with the error's text), or there is a JSON object with \<^verbatim>\<open>success\<close> and
  \<^verbatim>\<open>data\<close> (category, then service name, to entry); \<^verbatim>\<open>data\<close> may be missing.
\<close>

datatype statusResponse =
    StatusThrows string
  | StatusJson bool "(string \<Rightarrow> (string \<Rightarrow> serviceStatus option) option) option"

text \<open>
  The outcome of the configure request: it throws, or there is a JSON object with
  \<^verbatim>\<open>success\<close> and, possibly, \<^verbatim>\<open>error\<close>.
\<close>

datatype configureResponse =
    ConfigureThrows string
  | ConfigureJson bool "string option"

subsection \<open>Handlers\<close>

definition showSnackbar :: "string \<Rightarrow> severity \<Rightarrow> state \<Rightarrow> state" where
  "showSnackbar message sev st = st\<lparr>snackbar := Snackbar True message sev\<rparr>"

text \<open>
  \<^verbatim>\<open>data.data[category]?.[serviceName] || {enabled: false, configured: false,
  status: 'not_configured'}\<close>
\<close>

definition lookupServiceStatus ::
  "(string \<Rightarrow> (string \<Rightarrow> serviceStatus option) option) \<Rightarrow> string \<Rightarrow> string \<Rightarrow> serviceStatus" where
  "lookupServiceStatus d cat serviceName =
     (case d cat of
        None \<Rightarrow> ServiceStatus False False ''not_configured''
      | Some entries \<Rightarrow>
          (case entries serviceName of
             None \<Rightarrow> ServiceStatus False False ''not_configured''
           | Some serviceStatus \<Rightarrow> serviceStatus))"

text \<open>The object pushed onto \<^verbatim>\<open>servicesArray\<close> for one service.\<close>

definition toAPIService :: "string \<Rightarrow> string \<Rightarrow> string \<Rightarrow> serviceStatus \<Rightarrow> APIService" where
  "toAPIService cat serviceName descr serviceStatus =
     \<lparr>name = serviceName,
      category = cat,
      description = descr,
      status = (if ssStatus serviceStatus = ''ready'' then Connected
                else if ssConfigured serviceStatus then Error else Disconnected),
      enabled = ssEnabled serviceStatus,
      configured = ssConfigured serviceStatus\<rparr>"

text \<open>The two nested \<^verbatim>\<open>forEach\<close> loops that fill \<^verbatim>\<open>servicesArray\<close>.\<close>

definition servicesArray ::
  "(string \<Rightarrow> (string \<Rightarrow> serviceStatus option) option) \<Rightarrow> APIService list" where
  "servicesArray d =
     concat (map (\<lambda>(cat, categoryInfo).
                    map (\<lambda>(serviceName, descr).
                           toAPIService cat serviceName descr (lookupServiceStatus d cat serviceName))
                        (catServices categoryInfo))
                 serviceCategories)"

text \<open>The \<^verbatim>\<open>catch\<close> block of \<^verbatim>\<open>loadAPIStatus\<close>.\<close>

definition loadAPIStatusCatch :: "string \<Rightarrow> state \<Rightarrow> state" where
  "loadAPIStatusCatch err st =
     showSnackbar ''Error loading API status'' SevError
       (st\<lparr>effects := effects st @ [ConsoleError ''Error loading API status:'' err]\<rparr>)"

text \<open>
  \<^verbatim>\<open>loadAPIStatus\<close>. With \<^verbatim>\<open>success\<close> true and \<^verbatim>\<open>data\<close> missing, the first
  \<^verbatim>\<open>data.data[category]\<close> throws a TypeError, which the \<^verbatim>\<open>catch\<close> block handles; the
  \<^verbatim>\<open>finally\<close> block runs on every path.
\<close>

definition loadAPIStatus :: "statusResponse \<Rightarrow> state \<Rightarrow> state" where
  "loadAPIStatus response st =
     (let st1 = st\<lparr>loading := True, effects := effects st @ [FetchStatus]\<rparr>;
          st2 = (case response of
                   StatusThrows err \<Rightarrow> loadAPIStatusCatch err st1
                 | StatusJson success d \<Rightarrow>
                     if success then
                       (case d of
                          None \<Rightarrow> loadAPIStatusCatch ''TypeError'' st1
                        | Some d' \<Rightarrow> st1\<lparr>services := servicesArray d'\<rparr>)
                     else st1)
      in st2\<lparr>loading := False\<rparr>)"

definition handleConfigureService :: "string \<Rightarrow> string \<Rightarrow> state \<Rightarrow> state" where
  "handleConfigureService serviceName cat st =
     st\<lparr>configDialog := ConfigDialog True serviceName cat,
        apiKey := [],
        additionalConfig := Map.empty,
        showApiKey := False\<rparr>"

text \<open>\<^verbatim>\<open>`Configuration failed: ${data.error}`\<close>: a missing \<^verbatim>\<open>error\<close> prints as \<^verbatim>\<open>undefined\<close>.\<close>

definition errorText :: "string option \<Rightarrow> string" where
  "errorText err = (case err of None \<Rightarrow> ''undefined'' | Some t \<Rightarrow> t)"

text \<open>
  \<^verbatim>\<open>handleSaveConfiguration\<close>, given the outcome of the configure request and the outcome
  of the status request that a success triggers.
\<close>

definition handleSaveConfiguration :: "configureResponse \<Rightarrow> statusResponse \<Rightarrow> state \<Rightarrow> state" where
  "handleSaveConfiguration response statusResp st =
     (let st1 = st\<lparr>testingConnection := True\<rparr>;
          configuration = APIConfiguration (dlgService (configDialog st)) (apiKey st)
                                           (additionalConfig st);
          st2 = st1\<lparr>effects := effects st1 @ [FetchConfigure configuration]\<rparr>;
          st3 = (case response of
                   ConfigureThrows err \<Rightarrow>
                     showSnackbar ''Error configuring service'' SevError
                       (st2\<lparr>effects := effects st2 @ [ConsoleError ''Error configuring service:'' err]\<rparr>)
                 | ConfigureJson success err \<Rightarrow>
                     if success then
                       loadAPIStatus statusResp
                         ((showSnackbar (dlgService (configDialog st) @ '' configured successfully'')
                             SevSuccess st2)
                          \<lparr>configDialog := ConfigDialog False [] []\<rparr>)
                     else showSnackbar (''Configuration failed: '' @ errorText err) SevError st2)
      in st3\<lparr>testingConnection := False\<rparr>)"

text \<open>The Save button: \<^verbatim>\<open>disabled={!apiKey || testingConnection}\<close>.\<close>

definition saveDisabled :: "state \<Rightarrow> bool" where
  "saveDisabled st = (apiKey st = [] \<or> testingConnection st)"

text \<open>A click on the Save button; a disabled button does not call its handler.\<close>

definition clickSave :: "configureResponse \<Rightarrow> statusResponse \<Rightarrow> state \<Rightarrow> state" where
  "clickSave response statusResp st =
     (if saveDisabled st then st else handleSaveConfiguration response statusResp st)"

text \<open>
  \<^verbatim>\<open>handleTestConnection\<close>. The \<^verbatim>\<open>try\<close> block starts a two-second timer and awaits it;
  \<open>resolved\<close> says whether the awaited promise resolves (then the success message) or
  rejects (then the \<^verbatim>\<open>catch\<close> block).
\<close>

definition handleTestConnectionWith :: "bool \<Rightarrow> string \<Rightarrow> state \<Rightarrow> state" where
  "handleTestConnectionWith resolved serviceName st =
     (let st1 = st\<lparr>testingConnection := True\<rparr>;
          st2 = showSnackbar (''Testing connection to '' @ serviceName @ ''...'') SevInfo st1;
          st3 = st2\<lparr>effects := effects st2 @ [SetTimeout 2000]\<rparr>;
          st4 = (if resolved
                 then showSnackbar (''Connection to '' @ serviceName @ '' successful'') SevSuccess st3
                 else showSnackbar (''Connection test failed for '' @ serviceName) SevError st3)
      in st4\<lparr>testingConnection := False\<rparr>)"

text \<open>The promise of the source, \<^verbatim>\<open>new Promise(resolve => setTimeout(resolve, 2000))\<close>, always resolves.\<close>

definition handleTestConnection :: "string \<Rightarrow> state \<Rightarrow> state" where
  "handleTestConnection serviceName st = handleTestConnectionWith True serviceName st"

text \<open>\<^verbatim>\<open>services.find(s => s.name === serviceName)\<close>\<close>

definition findService :: "state \<Rightarrow> string \<Rightarrow> APIService option" where
  "findService st serviceName = find (\<lambda>s. name s = serviceName) (services st)"

text \<open>The status chip of a list item: \<^verbatim>\<open>service?.status || 'disconnected'\<close>.\<close>

definition chipStatus :: "state \<Rightarrow> string \<Rightarrow> status" where
  "chipStatus st serviceName =
     (case findService st serviceName of None \<Rightarrow> Disconnected | Some s \<Rightarrow> status s)"

text \<open>The Test button is rendered under \<^verbatim>\<open>service?.status === 'connected'\<close>.\<close>

definition testButtonShown :: "state \<Rightarrow> string \<Rightarrow> bool" where
  "testButtonShown st serviceName =
     (case findService st serviceName of None \<Rightarrow> False | Some s \<Rightarrow> status s = Connected)"

text \<open>
  A field of the configuration dialog, as in \<^verbatim>\<open>renderAdditionalConfigFields\<close>:
  \<^verbatim>\<open>{key, label, type?, required?}\<close>.
\<close>

datatype field =
  Field (fieldKey: string) (fieldLabel: string) (fieldType: "string option") (fieldRequired: "bool option")

text \<open>The \<^verbatim>\<open>switch\<close> of \<^verbatim>\<open>renderAdditionalConfigFields\<close>; no case, no fields.\<close>

definition additionalConfigFields :: "string \<Rightarrow> field list" where
  "additionalConfigFields service =
     (if service = ''facebook'' then
        [Field ''page_id'' ''Page ID'' None (Some True)]
      else if service = ''instagram'' then
        [Field ''business_account_id'' ''Business Account ID'' None (Some True)]
      else if service = ''twitter'' then
        [Field ''api_secret'' ''API Secret'' (Some ''password'') (Some True),
         Field ''access_token'' ''Access Token'' None (Some True),
         Field ''access_secret'' ''Access Token Secret'' (Some ''password'') (Some True)]
      else if service = ''google_analytics'' then
        [Field ''measurement_id'' ''Measurement ID'' None (Some True)]
      else if service = ''amazon_kdp'' then
        [Field ''asin'' ''Book ASIN'' None (Some True)]
      else if service = ''mailchimp'' then
        [Field ''audience_id'' ''Audience ID'' None (Some True)]
      else if service = ''author_email'' then
        [Field ''email'' ''Author Email Address'' (Some ''email'') (Some True),
         Field ''name'' ''Author Name'' None (Some True)]
      else if service = ''notification_preferences'' then
        [Field ''daily_reports'' ''Daily Reports'' (Some ''checkbox'') None,
         Field ''campaign_alerts'' ''Campaign Alerts'' (Some ''checkbox'') None,
         Field ''performance_summaries'' ''Weekly Performance Summaries'' (Some ''checkbox'') None]
      else [])"

text \<open>
  The fields of the dialog for a service: the API Key text field, marked \<^verbatim>\<open>required\<close>
  and shown as a password until \<^verbatim>\<open>showApiKey\<close> is switched on, then the additional
  fields.
\<close>

definition dialogFields :: "string \<Rightarrow> field list" where
  "dialogFields service =
     Field ''apiKey'' ''API Key'' (Some ''password'') (Some True) # additionalConfigFields service"

text \<open>The \<^verbatim>\<open>onChange\<close> handlers of the dialog's text fields.\<close>

definition setApiKey :: "string \<Rightarrow> state \<Rightarrow> state" where
  "setApiKey v st = st\<lparr>apiKey := v\<rparr>"

definition setAdditionalConfig :: "string \<Rightarrow> string \<Rightarrow> state \<Rightarrow> state" where
  "setAdditionalConfig k v st = st\<lparr>additionalConfig := (additionalConfig st)(k \<mapsto> v)\<rparr>"

text \<open>
  The services of \<^verbatim>\<open>serviceCategories\<close> in declaration order, each as category, name and
  description.
\<close>

definition catalogue :: "(string \<times> string \<times> string) list" where
  "catalogue =
     concat (map (\<lambda>(cat, categoryInfo). map (\<lambda>(serviceName, descr). (cat, serviceName, descr))
                                            (catServices categoryInfo))
                 serviceCategories)"

text \<open>What the component has written to the console so far.\<close>

definition consoleOutput :: "state \<Rightarrow> effect list" where
  "consoleOutput st =
     filter (\<lambda>e. case e of ConsoleError _ _ \<Rightarrow> True | _ \<Rightarrow> False) (effects st)"

section \<open>The credential registry behind the configure request\<close>

text \<open>
  Modelled from the spec: the status of a ServiceConfiguration. The registry that serves
  the configure request (validation, encrypted persistence, status) is not among the
  sources; the component above only sends it requests.
\<close>

datatype registryStatus = not_configured | reg_disconnected | reg_connected | reg_error

text \<open>Modelled from the spec: the errors of the registry that these operations can return.\<close>

datatype registryError =
    ValidationError "string list"
  | NotConfiguredError
  | UnknownServiceError

text \<open>
  Modelled from the spec: a persisted ServiceConfiguration (the registry's record is not
  among the sources): the encrypted value of each field, the status, and the time of the
  last test if there was one.
\<close>

record serviceConfiguration =
  secretFields :: "string \<Rightarrow> string option"
  regStatus :: registryStatus
  lastTestedAt :: "nat option"

type_synonym registry = "string \<Rightarrow> serviceConfiguration option"

text \<open>
  Modelled from the spec: the validation of the registry's configure, which is not among
  the sources. The keys of the required fields of a descriptor that the submitted values
  leave absent or empty, in the descriptor's order.
\<close>

definition missingFields :: "field list \<Rightarrow> (string \<Rightarrow> string option) \<Rightarrow> string list" where
  "missingFields fs submitted =
     map fieldKey
       (filter (\<lambda>f. fieldRequired f = Some True \<and>
                     (case submitted (fieldKey f) of None \<Rightarrow> True | Some v \<Rightarrow> v = []))
               fs)"

text \<open>
  Modelled from the spec: the registry's configure, which is not among the sources. An
  unknown service is rejected before anything else; a missing required field is a
  ValidationError that names the missing fields and writes nothing; otherwise every
  declared field is encrypted on its own (\<open>encrypt\<close> stands for the symmetric scheme with
  the process-held key), fields the descriptor does not declare are ignored, and the
  record replaces any earlier one with status disconnected. The store is taken to accept
  every write.
\<close>

definition configure ::
  "(string \<Rightarrow> string) \<Rightarrow> (string \<Rightarrow> field list option) \<Rightarrow> string \<Rightarrow> (string \<Rightarrow> string option)
     \<Rightarrow> registry \<Rightarrow> (registryError + unit) \<times> registry" where
  "configure encrypt descriptors service submitted reg =
     (case descriptors service of
        None \<Rightarrow> (Inl UnknownServiceError, reg)
      | Some fs \<Rightarrow>
          (let missing = missingFields fs submitted
           in if missing \<noteq> [] then (Inl (ValidationError missing), reg)
              else (Inr (),
                    reg(service \<mapsto>
                      \<lparr>secretFields =
                         (\<lambda>k. if k \<in> set (map fieldKey fs) then map_option encrypt (submitted k)
                              else None),
                       regStatus = reg_disconnected,
                       lastTestedAt = None\<rparr>))))"

text \<open>
  Modelled from the spec: the registry's removeConfiguration, which is not among the
  sources (the component has no action that removes a configuration). It deletes the
  record of the service and succeeds, whether or not there was one.
\<close>

definition removeConfiguration :: "string \<Rightarrow> registry \<Rightarrow> (registryError + unit) \<times> registry" where
  "removeConfiguration service reg = (Inr (), reg(service := None))"

text \<open>
  Modelled from the spec: the status the registry reports for a service, not_configured
  when it holds no record for it (the registry's side of getStatus is not among the
  sources).
\<close>

definition registryStatusOf :: "registry \<Rightarrow> string \<Rightarrow> registryStatus" where
  "registryStatusOf reg service =
     (case reg service of None \<Rightarrow> not_configured | Some c \<Rightarrow> regStatus c)"

text \<open>
  The descriptors that the component's own tables give: a service of \<^verbatim>\<open>serviceCategories\<close>
  has the fields of its dialog, any other name is unknown.
\<close>

definition dialogDescriptors :: "string \<Rightarrow> field list option" where
  "dialogDescriptors service =
     (if service \<in> set (map (fst \<circ> snd) catalogue) then Some (dialogFields service) else None)"

section \<open>Scenarios\<close>

text \<open>The mounted component after a first status answer that lists no service at all.\<close>

definition mountedState :: state where
  "mountedState = loadAPIStatus (StatusJson True (Some Map.empty)) initialState"

text \<open>
  The twitter dialog opened on the mounted component and filled in completely:
  \<^verbatim>\<open>{apiKey: "k", additionalConfig: {api_secret: "s", access_token: "t", access_secret: "u"}}\<close>.
\<close>

definition twitterDialog :: state where
  "twitterDialog =
     setAdditionalConfig ''access_secret'' ''u''
       (setAdditionalConfig ''access_token'' ''t''
          (setAdditionalConfig ''api_secret'' ''s''
             (setApiKey ''k''
                (handleConfigureService ''twitter'' ''social_media'' mountedState))))"

text \<open>A status answer whose only entry is twitter, enabled and configured, with the given status word.\<close>

definition twitterAnswer :: "string \<Rightarrow> statusResponse" where
  "twitterAnswer word =
     StatusJson True
       (Some (Map.empty(''social_media'' \<mapsto> Map.empty(''twitter'' \<mapsto> ServiceStatus True True word))))"

text \<open>The complete twitter credentials of the scenario, as one field map.\<close>

definition twitterFields :: "string \<Rightarrow> string option" where
  "twitterFields =
     Map.empty(''apiKey'' \<mapsto> ''k'', ''api_secret'' \<mapsto> ''s'', ''access_token'' \<mapsto> ''t'',
               ''access_secret'' \<mapsto> ''u'')"

text \<open>
  A registry whose only record is twitter, configured with those credentials (string
  reversal stands for the cipher) and since tested successfully.
\<close>

definition connectedRegistry :: registry where
  "connectedRegistry =
     Map.empty(''twitter'' \<mapsto>
       \<lparr>secretFields = map_option rev \<circ> twitterFields,
        regStatus = reg_connected,
        lastTestedAt = Some 1\<rparr>)"

text \<open>
  The panel showing twitter as connected, with the twitter dialog just opened: the API key
  field is empty.
\<close>

definition connectedTwitterDialog :: state where
  "connectedTwitterDialog =
     handleConfigureService ''twitter'' ''social_media''
       (loadAPIStatus (twitterAnswer ''ready'') mountedState)"

text \<open>
  The mounted component after a first status answer that reports twitter \<^verbatim>\<open>ready\<close> but
  neither enabled nor configured.
\<close>

definition unconfiguredReadyPanel :: state where
  "unconfiguredReadyPanel =
     loadAPIStatus
       (StatusJson True
          (Some (Map.empty(''social_media'' \<mapsto>
                   Map.empty(''twitter'' \<mapsto> ServiceStatus False False ''ready'')))))
       initialState"

text \<open>The panel after a status answer that reports twitter configured and \<^verbatim>\<open>ready\<close>.\<close>

definition connectedPanel :: state where
  "connectedPanel = loadAPIStatus (twitterAnswer ''ready'') mountedState"

section \<open>Properties of services/config.ts\<close>

lemma API_CONFIG_keys:
  "map fst (API_CONFIG e) =
     [''anthropic'', ''openai'', ''instagram'', ''facebook'', ''twitter'', ''tiktok'',
      ''threads'', ''bluesky'', ''midjourney'', ''dalle'', ''stability'', ''ayrshare'',
      ''buffer'', ''hootsuite'', ''googleAnalytics'', ''facebookPixel'', ''mailchimp'',
      ''convertkit'', ''amazon'', ''bookbub'']"
  by (simp add: API_CONFIG_def)

lemma API_CONFIG_distinct: "distinct (map fst (API_CONFIG e))"
  unfolding API_CONFIG_keys by simp

lemma foldl_pushMissing:
  "foldl pushMissing acc cfg = acc @ map fst (filter (\<lambda>entry. \<not> someNonEmpty (snd entry)) cfg)"
  by (induction cfg arbitrary: acc) (simp_all add: pushMissing_def)

lemma filter_keys_map_of:
  "distinct (map fst cfg) \<Longrightarrow>
   map fst (filter (\<lambda>entry. P (snd entry)) cfg) =
   filter (\<lambda>k. case map_of cfg k of None \<Rightarrow> False | Some c \<Rightarrow> P c) (map fst cfg)"
proof (induction cfg)
  case Nil
  then show ?case by simp
next
  case (Cons entry cfg)
  obtain k c where entry: "entry = (k, c)" by (cases entry)
  from Cons.prems have fresh: "k \<notin> fst ` set cfg" and dist: "distinct (map fst cfg)"
    by (simp_all add: entry)
  have same: "filter (\<lambda>k'. case map_of (entry # cfg) k' of None \<Rightarrow> False | Some c \<Rightarrow> P c) (map fst cfg)
            = filter (\<lambda>k'. case map_of cfg k' of None \<Rightarrow> False | Some c \<Rightarrow> P c) (map fst cfg)"
    using fresh by (intro filter_cong refl) (auto simp: entry)
  show ?case
    using Cons.IH [OF dist] same by (simp add: entry)
qed

lemma isConfigured_lookup:
  "map_of (API_CONFIG e) service = Some config \<Longrightarrow>
   isConfigured e service = (\<exists>v \<in> set (map snd config). v \<noteq> [])"
  by (simp add: isConfigured_def someNonEmpty_def list_ex_iff)

lemma isConfigured_key_cases:
  "service \<in> set (map fst (API_CONFIG e)) \<Longrightarrow> \<exists>config. map_of (API_CONFIG e) service = Some config"
  by (metis map_of_eq_None_iff not_Some_eq set_map)

lemma getMissingConfigs_filter:
  "getMissingConfigs e = filter (\<lambda>s. \<not> isConfigured e s) (map fst (API_CONFIG e))"
proof -
  have "getMissingConfigs e
      = map fst (filter (\<lambda>entry. \<not> someNonEmpty (snd entry)) (API_CONFIG e))"
    by (simp add: getMissingConfigs_def foldl_pushMissing)
  also have "\<dots> = filter (\<lambda>k. case map_of (API_CONFIG e) k of None \<Rightarrow> False
                                | Some c \<Rightarrow> \<not> someNonEmpty c) (map fst (API_CONFIG e))"
    by (rule filter_keys_map_of [OF API_CONFIG_distinct])
  also have "\<dots> = filter (\<lambda>s. \<not> isConfigured e s) (map fst (API_CONFIG e))"
  proof (rule filter_cong [OF refl])
    fix s assume "s \<in> set (map fst (API_CONFIG e))"
    then obtain c where "map_of (API_CONFIG e) s = Some c"
      using isConfigured_key_cases by blast
    then show "(case map_of (API_CONFIG e) s of None \<Rightarrow> False | Some c \<Rightarrow> \<not> someNonEmpty c)
             = (\<not> isConfigured e s)"
      by (simp add: isConfigured_def)
  qed
  finally show ?thesis .
qed

text \<open>
  C9. For a service key of \<^verbatim>\<open>API_CONFIG\<close>, \<^verbatim>\<open>isConfigured\<close> answers true exactly when at
  least one value of that service's config object (the \<^verbatim>\<open>baseUrl\<close> counts as one) is not the
  empty string. In particular, twitter with only \<^verbatim>\<open>REACT_APP_TWITTER_API_KEY\<close> set, and its
  three other credentials empty, is reported as configured.
\<close>

theorem isConfigured_iff_some_value_nonempty:
  "(\<forall>config. map_of (API_CONFIG e) service = Some config \<longrightarrow>
      (isConfigured e service \<longleftrightarrow> (\<exists>v \<in> set (map snd config). v \<noteq> [])))
   \<and> (e' ''REACT_APP_TWITTER_API_KEY'' = Some k \<and> k \<noteq> []
        \<and> e' ''REACT_APP_TWITTER_API_SECRET'' = None
        \<and> e' ''REACT_APP_TWITTER_ACCESS_TOKEN'' = None
        \<and> e' ''REACT_APP_TWITTER_ACCESS_SECRET'' = None
      \<longrightarrow> isConfigured e' ''twitter'')"
proof (intro conjI allI impI)
  fix config assume "map_of (API_CONFIG e) service = Some config"
  then show "isConfigured e service \<longleftrightarrow> (\<exists>v \<in> set (map snd config). v \<noteq> [])"
    by (rule isConfigured_lookup)
next
  show "isConfigured e' ''twitter''"
    by (simp add: isConfigured_def someNonEmpty_def API_CONFIG_def)
qed

theorem isConfigured_iff_some_value_nonempty_witness:
  "\<not> isConfigured Map.empty ''googleAnalytics''
   \<and> isConfigured (Map.empty(''REACT_APP_GOOGLE_ANALYTICS_ID'' \<mapsto> ''G-1'')) ''googleAnalytics''
   \<and> isConfigured (Map.empty(''REACT_APP_TWITTER_API_KEY'' \<mapsto> ''k'')) ''twitter''"
proof -
  have a: "map_of (API_CONFIG Map.empty) ''googleAnalytics'' = Some [(''id'', [])]"
    by (simp add: API_CONFIG_def envOr_def)
  have b: "map_of (API_CONFIG (Map.empty(''REACT_APP_GOOGLE_ANALYTICS_ID'' \<mapsto> ''G-1'')))
             ''googleAnalytics'' = Some [(''id'', ''G-1'')]"
    by (simp add: API_CONFIG_def envOr_def)
  show ?thesis
    using isConfigured_iff_some_value_nonempty
            [of Map.empty "''googleAnalytics''"
                "Map.empty(''REACT_APP_TWITTER_API_KEY'' \<mapsto> ''k'')" "''k''"]
          isConfigured_iff_some_value_nonempty
            [of "Map.empty(''REACT_APP_GOOGLE_ANALYTICS_ID'' \<mapsto> ''G-1'')" "''googleAnalytics''"
                "Map.empty(''REACT_APP_TWITTER_API_KEY'' \<mapsto> ''k'')" "''k''"]
    by (simp add: a b)
qed

text \<open>
  C10. The list returned by \<^verbatim>\<open>getMissingConfigs\<close> is the list of \<^verbatim>\<open>API_CONFIG\<close> keys, in
  declaration order, restricted to the services for which \<^verbatim>\<open>isConfigured\<close> is false; it has
  no duplicates; a key is in it exactly when \<^verbatim>\<open>isConfigured\<close> is false for it, which is
  exactly when every value of its config object is the empty string.
\<close>

theorem getMissingConfigs_are_unconfigured_in_order:
  "getMissingConfigs e = filter (\<lambda>s. \<not> isConfigured e s) (map fst (API_CONFIG e))
   \<and> distinct (getMissingConfigs e)
   \<and> (\<forall>s \<in> set (map fst (API_CONFIG e)).
         (s \<in> set (getMissingConfigs e) \<longleftrightarrow> \<not> isConfigured e s))
   \<and> (\<forall>s config. map_of (API_CONFIG e) s = Some config \<longrightarrow>
         (s \<in> set (getMissingConfigs e) \<longleftrightarrow> (\<forall>v \<in> set (map snd config). v = [])))"
proof (intro conjI ballI allI impI)
  show eq: "getMissingConfigs e = filter (\<lambda>s. \<not> isConfigured e s) (map fst (API_CONFIG e))"
    by (rule getMissingConfigs_filter)
  show "distinct (getMissingConfigs e)"
    unfolding eq by (rule distinct_filter [OF API_CONFIG_distinct])
  fix s assume "s \<in> set (map fst (API_CONFIG e))"
  then show "s \<in> set (getMissingConfigs e) \<longleftrightarrow> \<not> isConfigured e s"
    unfolding eq by simp
next
  fix s config assume look: "map_of (API_CONFIG e) s = Some config"
  then have "s \<in> set (map fst (API_CONFIG e))"
    by (metis map_of_eq_None_iff option.distinct(1) set_map)
  then have "s \<in> set (getMissingConfigs e) \<longleftrightarrow> \<not> isConfigured e s"
    unfolding getMissingConfigs_filter by simp
  also have "\<dots> \<longleftrightarrow> (\<forall>v \<in> set (map snd config). v = [])"
    using isConfigured_lookup [OF look] by simp
  finally show "s \<in> set (getMissingConfigs e) \<longleftrightarrow> (\<forall>v \<in> set (map snd config). v = [])" .
qed

theorem getMissingConfigs_are_unconfigured_in_order_witness:
  "getMissingConfigs Map.empty = [''googleAnalytics'', ''facebookPixel'']
   \<and> ''googleAnalytics'' \<in> set (map fst (API_CONFIG Map.empty))
   \<and> \<not> isConfigured Map.empty ''googleAnalytics''
   \<and> ''twitter'' \<in> set (map fst (API_CONFIG Map.empty))
   \<and> isConfigured Map.empty ''twitter''
   \<and> map_of (API_CONFIG Map.empty) ''googleAnalytics'' = Some [(''id'', [])]
   \<and> ''googleAnalytics'' \<in> set (getMissingConfigs Map.empty)"
proof -
  have g: "getMissingConfigs Map.empty = [''googleAnalytics'', ''facebookPixel'']"
    by (simp add: getMissingConfigs_def API_CONFIG_def envOr_def pushMissing_def someNonEmpty_def)
  have k1: "''googleAnalytics'' \<in> set (map fst (API_CONFIG Map.empty))"
    and k2: "''twitter'' \<in> set (map fst (API_CONFIG Map.empty))"
    unfolding API_CONFIG_keys by simp_all
  from getMissingConfigs_are_unconfigured_in_order [of Map.empty]
  have iff: "\<forall>s \<in> set (map fst (API_CONFIG Map.empty)).
               (s \<in> set (getMissingConfigs Map.empty) \<longleftrightarrow> \<not> isConfigured Map.empty s)"
    by blast
  have n1: "\<not> isConfigured Map.empty ''googleAnalytics''"
    using bspec [OF iff k1] by (simp add: g)
  have n2: "isConfigured Map.empty ''twitter''"
    using bspec [OF iff k2] by (simp add: g)
  have look: "map_of (API_CONFIG Map.empty) ''googleAnalytics'' = Some [(''id'', [])]"
    by (simp add: API_CONFIG_def envOr_def)
  from getMissingConfigs_are_unconfigured_in_order [of Map.empty] look
  have "''googleAnalytics'' \<in> set (getMissingConfigs Map.empty)
        \<longleftrightarrow> (\<forall>v \<in> set (map snd [(''id'', [])]). v = ([] :: string))"
    by blast
  then have m: "''googleAnalytics'' \<in> set (getMissingConfigs Map.empty)" by simp
  show ?thesis using g k1 k2 n1 n2 m look by blast
qed

section \<open>Properties of components/APISettings.tsx\<close>

lemma catalogue_eq:
  "catalogue =
    [(''ai_services'', ''anthropic'', ''Claude AI for content generation''),
     (''ai_services'', ''openai'', ''DALL-E 3 for image generation''),
     (''social_media'', ''instagram'', ''Instagram Business API''),
     (''social_media'', ''facebook'', ''Facebook Graph API''),
     (''social_media'', ''twitter'', ''Twitter API v2''),
     (''social_media'', ''tiktok'', ''TikTok for Business API''),
     (''social_media'', ''threads'', ''Threads API''),
     (''social_media'', ''bluesky'', ''Bluesky API''),
     (''analytics'', ''google_analytics'', ''Google Analytics 4''),
     (''analytics'', ''facebook_pixel'', ''Facebook Pixel tracking''),
     (''book_platforms'', ''amazon_kdp'', ''Amazon KDP sales tracking''),
     (''book_platforms'', ''bookbub'', ''BookBub advertising API''),
     (''email_marketing'', ''mailchimp'', ''Mailchimp email campaigns''),
     (''email_marketing'', ''convertkit'', ''ConvertKit email automation''),
     (''author_settings'', ''author_email'', ''Author email for reports and notifications''),
     (''author_settings'', ''notification_preferences'', ''Email notification settings'')]"
  by (simp add: catalogue_def serviceCategories_def)

lemma catalogue_names_distinct: "distinct (map (fst \<circ> snd) catalogue)"
  unfolding catalogue_eq by simp

lemma servicesArray_catalogue:
  "servicesArray d =
     map (\<lambda>(cat, serviceName, descr).
            toAPIService cat serviceName descr (lookupServiceStatus d cat serviceName))
         catalogue"
  by (simp add: servicesArray_def catalogue_def serviceCategories_def)

lemma find_map_key:
  assumes "distinct (map key xs)" and "x \<in> set xs" and "\<And>y. nm (f y) = key y"
  shows "find (\<lambda>s. nm s = key x) (map f xs) = Some (f x)"
  using assms(1,2)
proof (induction xs)
  case Nil
  then show ?case by simp
next
  case (Cons a xs)
  then show ?case by (auto simp: assms(3) image_iff)
qed

lemma find_servicesArray:
  assumes "(cat, serviceName, descr) \<in> set catalogue"
  shows "find (\<lambda>s. name s = serviceName) (servicesArray d)
         = Some (toAPIService cat serviceName descr (lookupServiceStatus d cat serviceName))"
proof -
  have nm: "\<And>y. name ((\<lambda>(cat, serviceName, descr).
            toAPIService cat serviceName descr (lookupServiceStatus d cat serviceName)) y) = (fst \<circ> snd) y"
    by (simp add: toAPIService_def split: prod.splits)
  show ?thesis
    unfolding servicesArray_catalogue
    using find_map_key [OF catalogue_names_distinct assms, where nm = name, OF nm]
    by simp
qed

lemma find_none_servicesArray:
  assumes "serviceName \<notin> set (map (fst \<circ> snd) catalogue)"
  shows "find (\<lambda>s. name s = serviceName) (servicesArray d) = None"
  using assms unfolding servicesArray_catalogue
  by (force simp: find_None_iff toAPIService_def split: prod.splits)

lemma services_loadAPIStatus:
  "services (loadAPIStatus response st) =
     (case response of
        StatusJson True (Some d) \<Rightarrow> servicesArray d
      | _ \<Rightarrow> services st)"
  by (simp add: loadAPIStatus_def loadAPIStatusCatch_def showSnackbar_def Let_def
           split: statusResponse.splits option.splits bool.splits)

lemma loadAPIStatus_frame:
  "configDialog (loadAPIStatus r st) = configDialog st"
  "apiKey (loadAPIStatus r st) = apiKey st"
  "showApiKey (loadAPIStatus r st) = showApiKey st"
  "additionalConfig (loadAPIStatus r st) = additionalConfig st"
  "testingConnection (loadAPIStatus r st) = testingConnection st"
  "loading (loadAPIStatus r st) = False"
  by (simp_all add: loadAPIStatus_def loadAPIStatusCatch_def showSnackbar_def Let_def
           split: statusResponse.splits option.splits)

lemma effects_loadAPIStatus:
  "effects (loadAPIStatus r st) =
     effects st @ FetchStatus #
       (case r of
          StatusThrows err \<Rightarrow> [ConsoleError ''Error loading API status:'' err]
        | StatusJson success d \<Rightarrow>
            (if success \<and> d = None then [ConsoleError ''Error loading API status:'' ''TypeError'']
             else []))"
  by (simp add: loadAPIStatus_def loadAPIStatusCatch_def showSnackbar_def Let_def
           split: statusResponse.splits option.splits)

lemma chipStatus_loadAPIStatus:
  assumes "(cat, serviceName, descr) \<in> set catalogue"
  shows "chipStatus (loadAPIStatus (StatusJson True (Some d)) st) serviceName
         = (if ssStatus (lookupServiceStatus d cat serviceName) = ''ready'' then Connected
            else if ssConfigured (lookupServiceStatus d cat serviceName) then Error
            else Disconnected)"
  by (simp add: chipStatus_def findService_def services_loadAPIStatus
                find_servicesArray [OF assms] toAPIService_def)

lemma handleTestConnectionWith_eq:
  "handleTestConnectionWith resolved serviceName st =
     st\<lparr>snackbar :=
          (if resolved then Snackbar True (''Connection to '' @ serviceName @ '' successful'') SevSuccess
           else Snackbar True (''Connection test failed for '' @ serviceName) SevError),
        testingConnection := False,
        effects := effects st @ [SetTimeout 2000]\<rparr>"
  by (simp add: handleTestConnectionWith_def showSnackbar_def Let_def)

lemma in_catalogue:
  "(''social_media'', ''twitter'', ''Twitter API v2'') \<in> set catalogue"
  "(''ai_services'', ''anthropic'', ''Claude AI for content generation'') \<in> set catalogue"
  unfolding catalogue_eq by simp_all

lemma services_mountedState:
  "services mountedState = servicesArray Map.empty"
  by (simp add: mountedState_def services_loadAPIStatus)

lemma lookupServiceStatus_twitterAnswer:
  "lookupServiceStatus
     (Map.empty(''social_media'' \<mapsto> Map.empty(''twitter'' \<mapsto> ServiceStatus True True word)))
     ''social_media'' ''twitter'' = ServiceStatus True True word"
  by (simp add: lookupServiceStatus_def)

lemma chipStatus_twitterAnswer:
  "chipStatus (loadAPIStatus (twitterAnswer word) st) ''twitter''
   = (if word = ''ready'' then Connected else Error)"
  unfolding twitterAnswer_def
  by (simp add: chipStatus_loadAPIStatus [OF in_catalogue(1)] lookupServiceStatus_twitterAnswer)

lemma chipStatus_handleTestConnectionWith:
  "chipStatus (handleTestConnectionWith resolved serviceName st) n = chipStatus st n"
  by (simp add: handleTestConnectionWith_eq chipStatus_def findService_def)

lemma findService_loadAPIStatus:
  assumes "(cat, serviceName, descr) \<in> set catalogue"
  shows "findService (loadAPIStatus (StatusJson True (Some d)) st) serviceName
         = Some (toAPIService cat serviceName descr (lookupServiceStatus d cat serviceName))"
  by (simp add: findService_def services_loadAPIStatus find_servicesArray [OF assms])

lemma findService_unconfiguredReadyPanel:
  "findService unconfiguredReadyPanel ''twitter''
     = Some \<lparr>name = ''twitter'', category = ''social_media'', description = ''Twitter API v2'',
             status = Connected, enabled = False, configured = False\<rparr>"
  unfolding unconfiguredReadyPanel_def
  by (simp add: findService_loadAPIStatus [OF in_catalogue(1)] toAPIService_def
                lookupServiceStatus_def)

lemma findService_connectedPanel:
  "findService connectedPanel ''twitter''
     = Some \<lparr>name = ''twitter'', category = ''social_media'', description = ''Twitter API v2'',
             status = Connected, enabled = True, configured = True\<rparr>"
  unfolding connectedPanel_def twitterAnswer_def
  by (simp add: findService_loadAPIStatus [OF in_catalogue(1)] toAPIService_def
                lookupServiceStatus_twitterAnswer)

lemma findService_handleTestConnectionWith:
  "findService (handleTestConnectionWith resolved serviceName st) n = findService st n"
  by (simp add: handleTestConnectionWith_eq findService_def)

lemma testButtonShown_chipStatus:
  "testButtonShown st n \<Longrightarrow> chipStatus st n = Connected"
  by (cases "findService st n") (simp_all add: testButtonShown_def chipStatus_def)

text \<open>
  C3 (as amended). \<^verbatim>\<open>handleTestConnection\<close> does not look for a configuration: for every
  service name, configured or not, it changes no service's status and ends by reporting
  success; it never fails with a not-configured error. The panel offers the Test button
  only for a service whose status chip reads connected.
\<close>

theorem handleTestConnection_reports_success_unchecked:
  "services (handleTestConnection serviceName st) = services st
   \<and> snackbar (handleTestConnection serviceName st)
       = Snackbar True (''Connection to '' @ serviceName @ '' successful'') SevSuccess
   \<and> (testButtonShown st serviceName \<longleftrightarrow> chipStatus st serviceName = Connected)"
proof (intro conjI)
  show "services (handleTestConnection serviceName st) = services st"
    by (simp add: handleTestConnection_def handleTestConnectionWith_eq)
  show "snackbar (handleTestConnection serviceName st)
       = Snackbar True (''Connection to '' @ serviceName @ '' successful'') SevSuccess"
    by (simp add: handleTestConnection_def handleTestConnectionWith_eq)
  show "testButtonShown st serviceName \<longleftrightarrow> chipStatus st serviceName = Connected"
    by (cases "findService st serviceName") (simp_all add: testButtonShown_def chipStatus_def)
qed

text \<open>
  The status answer reports twitter \<^verbatim>\<open>ready\<close> and not configured. The panel then shows
  twitter connected and offers its Test button, and testing it reports success.
\<close>

theorem testConnection_unconfigured_counterexample:
  "testButtonShown unconfiguredReadyPanel ''twitter''
   \<and> findService unconfiguredReadyPanel ''twitter''
       = Some \<lparr>name = ''twitter'', category = ''social_media'', description = ''Twitter API v2'',
               status = Connected, enabled = False, configured = False\<rparr>
   \<and> snackbar (handleTestConnection ''twitter'' unconfiguredReadyPanel)
       = Snackbar True ''Connection to twitter successful'' SevSuccess
   \<and> services (handleTestConnection ''twitter'' unconfiguredReadyPanel)
       = services unconfiguredReadyPanel"
proof (intro conjI)
  show "testButtonShown unconfiguredReadyPanel ''twitter''"
    by (simp add: testButtonShown_def findService_unconfiguredReadyPanel)
  show "findService unconfiguredReadyPanel ''twitter''
       = Some \<lparr>name = ''twitter'', category = ''social_media'', description = ''Twitter API v2'',
               status = Connected, enabled = False, configured = False\<rparr>"
    by (rule findService_unconfiguredReadyPanel)
  show "snackbar (handleTestConnection ''twitter'' unconfiguredReadyPanel)
       = Snackbar True ''Connection to twitter successful'' SevSuccess"
    by (simp add: handleTestConnection_def handleTestConnectionWith_eq)
  show "services (handleTestConnection ''twitter'' unconfiguredReadyPanel)
       = services unconfiguredReadyPanel"
    by (simp add: handleTestConnection_def handleTestConnectionWith_eq)
qed

text \<open>
  C4 (as amended). One call of \<^verbatim>\<open>handleTestConnection\<close> makes one attempt, the single
  two-second timer, and never retries. It changes nothing but the snackbar, the
  \<^verbatim>\<open>testingConnection\<close> flag and that timer: no status is changed and no test time is
  recorded. Wherever the Test button is offered the service is connected, and it is still
  connected after the test. The call reports "Connection to <service> successful" when the
  awaited step completes, as it always does in the source; were that step to throw, the
  \<^verbatim>\<open>catch\<close> block would report "Connection test failed for <service>", with no
  classification of the cause and no change of status.
\<close>

theorem handleTestConnection_one_attempt_no_status_change:
  "handleTestConnectionWith resolved serviceName st =
     st\<lparr>snackbar :=
          (if resolved then Snackbar True (''Connection to '' @ serviceName @ '' successful'') SevSuccess
           else Snackbar True (''Connection test failed for '' @ serviceName) SevError),
        testingConnection := False,
        effects := effects st @ [SetTimeout 2000]\<rparr>
   \<and> handleTestConnection serviceName st = handleTestConnectionWith True serviceName st
   \<and> services (handleTestConnectionWith resolved serviceName st) = services st
   \<and> (testButtonShown st serviceName \<longrightarrow>
        chipStatus (handleTestConnection serviceName st) serviceName = Connected)"
proof (intro conjI impI)
  assume "testButtonShown st serviceName"
  then show "chipStatus (handleTestConnection serviceName st) serviceName = Connected"
    by (simp add: handleTestConnection_def chipStatus_handleTestConnectionWith
                  testButtonShown_chipStatus)
qed (simp_all add: handleTestConnectionWith_eq handleTestConnection_def)

theorem handleTestConnection_one_attempt_no_status_change_witness:
  "testButtonShown connectedPanel ''twitter''
   \<and> chipStatus (handleTestConnection ''twitter'' connectedPanel) ''twitter'' = Connected"
proof -
  have shown: "testButtonShown connectedPanel ''twitter''"
    by (simp add: testButtonShown_def findService_connectedPanel)
  from handleTestConnection_one_attempt_no_status_change
         [where st = connectedPanel and serviceName = "''twitter''" and resolved = True,
          THEN conjunct2, THEN conjunct2, THEN conjunct2, THEN mp, OF shown] shown
  show ?thesis by simp
qed

text \<open>
  Twitter is connected and its Test button is offered. The test succeeds, and the state
  afterwards is the state before with a new snackbar and one more timer: the entry of
  twitter is as it was and holds no time of test, and a second test leaves no trace but a
  second timer.
\<close>

theorem testConnection_records_nothing_counterexample:
  "testButtonShown connectedPanel ''twitter''
   \<and> handleTestConnection ''twitter'' connectedPanel
       = connectedPanel
           \<lparr>snackbar := Snackbar True ''Connection to twitter successful'' SevSuccess,
            testingConnection := False,
            effects := effects connectedPanel @ [SetTimeout 2000]\<rparr>
   \<and> findService (handleTestConnection ''twitter'' connectedPanel) ''twitter''
       = Some \<lparr>name = ''twitter'', category = ''social_media'', description = ''Twitter API v2'',
               status = Connected, enabled = True, configured = True\<rparr>
   \<and> testButtonShown (handleTestConnection ''twitter'' connectedPanel) ''twitter''
   \<and> handleTestConnection ''twitter'' (handleTestConnection ''twitter'' connectedPanel)
       = (handleTestConnection ''twitter'' connectedPanel)
           \<lparr>effects := effects connectedPanel @ [SetTimeout 2000, SetTimeout 2000]\<rparr>"
proof (intro conjI)
  show "testButtonShown connectedPanel ''twitter''"
    by (simp add: testButtonShown_def findService_connectedPanel)
  show "handleTestConnection ''twitter'' connectedPanel
       = connectedPanel
           \<lparr>snackbar := Snackbar True ''Connection to twitter successful'' SevSuccess,
            testingConnection := False,
            effects := effects connectedPanel @ [SetTimeout 2000]\<rparr>"
    by (simp add: handleTestConnection_def handleTestConnectionWith_eq)
  show "findService (handleTestConnection ''twitter'' connectedPanel) ''twitter''
       = Some \<lparr>name = ''twitter'', category = ''social_media'', description = ''Twitter API v2'',
               status = Connected, enabled = True, configured = True\<rparr>"
    by (simp add: handleTestConnection_def findService_handleTestConnectionWith
                  findService_connectedPanel)
  show "testButtonShown (handleTestConnection ''twitter'' connectedPanel) ''twitter''"
    by (simp add: testButtonShown_def handleTestConnection_def
                  findService_handleTestConnectionWith findService_connectedPanel)
  show "handleTestConnection ''twitter'' (handleTestConnection ''twitter'' connectedPanel)
       = (handleTestConnection ''twitter'' connectedPanel)
           \<lparr>effects := effects connectedPanel @ [SetTimeout 2000, SetTimeout 2000]\<rparr>"
    by (simp add: handleTestConnection_def handleTestConnectionWith_eq)
qed

lemma catalogue_of_servicesArray:
  "map (\<lambda>s. (category s, name s, description s)) (servicesArray d) = catalogue"
  unfolding servicesArray_catalogue
  by (simp add: toAPIService_def split_def comp_def map_idI)

lemma services_handleSaveConfiguration:
  "services (handleSaveConfiguration response statusResp st) =
     (case response of
        ConfigureJson True err \<Rightarrow> services (loadAPIStatus statusResp st)
      | _ \<Rightarrow> services st)"
  by (simp add: handleSaveConfiguration_def Let_def showSnackbar_def services_loadAPIStatus
           split: configureResponse.splits statusResponse.splits option.splits bool.splits)

lemma length_catalogue: "length catalogue = 16"
  unfolding catalogue_eq by simp

lemma status_default: "status (toAPIService c n d (lookupServiceStatus Map.empty c n)) = Disconnected"
  by (simp add: toAPIService_def lookupServiceStatus_def)

lemma all_disconnected: "set (map status (services mountedState)) = {Disconnected}"
proof -
  have "map status (services mountedState) = map (\<lambda>x. Disconnected) catalogue"
    by (simp add: services_mountedState servicesArray_catalogue status_default split_def)
  then show ?thesis by (simp add: catalogue_eq)
qed

lemma lookupServiceStatus_absent:
  "d cat = None \<or> (\<exists>entries. d cat = Some entries \<and> entries serviceName = None) \<Longrightarrow>
   lookupServiceStatus d cat serviceName = ServiceStatus False False ''not_configured''"
  by (auto simp: lookupServiceStatus_def)

text \<open>
  C6 (as amended). \<^verbatim>\<open>loadAPIStatus\<close> is a read: it sends the status request and nothing
  else, and leaves the dialog, the typed key and fields and the \<^verbatim>\<open>testingConnection\<close> flag
  as they were. When the answer reports success and carries data, it returns one entry
  for every service of the catalogue, in declaration order. For a service that the answer
  does not list, the entry defaults to \<^verbatim>\<open>{enabled: false, configured: false, status:
  'not_configured'}\<close>, and the status returned for it is \<^verbatim>\<open>disconnected\<close>. When the
  answer does not report success, or reports it without data, or the request throws, the
  list is left as it was.
\<close>

theorem loadAPIStatus_lists_catalogue_default_disconnected:
  "map (\<lambda>s. (category s, name s, description s))
       (services (loadAPIStatus (StatusJson True (Some d)) st)) = catalogue
   \<and> ((cat, serviceName, descr) \<in> set catalogue
        \<and> (d cat = None \<or> (\<exists>entries. d cat = Some entries \<and> entries serviceName = None))
      \<longrightarrow> lookupServiceStatus d cat serviceName = ServiceStatus False False ''not_configured''
          \<and> findService (loadAPIStatus (StatusJson True (Some d)) st) serviceName
              = Some \<lparr>name = serviceName, category = cat, description = descr,
                      status = Disconnected, enabled = False, configured = False\<rparr>)
   \<and> configDialog (loadAPIStatus r st) = configDialog st
   \<and> apiKey (loadAPIStatus r st) = apiKey st
   \<and> showApiKey (loadAPIStatus r st) = showApiKey st
   \<and> additionalConfig (loadAPIStatus r st) = additionalConfig st
   \<and> testingConnection (loadAPIStatus r st) = testingConnection st
   \<and> effects (loadAPIStatus r st) =
       effects st @ FetchStatus #
         (case r of
            StatusThrows t \<Rightarrow> [ConsoleError ''Error loading API status:'' t]
          | StatusJson success d' \<Rightarrow>
              (if success \<and> d' = None then [ConsoleError ''Error loading API status:'' ''TypeError'']
               else []))
   \<and> services (loadAPIStatus r st)
       = (case r of StatusJson True (Some d') \<Rightarrow> servicesArray d' | _ \<Rightarrow> services st)"
proof -
  have listed: "map (\<lambda>s. (category s, name s, description s))
       (services (loadAPIStatus (StatusJson True (Some d)) st)) = catalogue"
    by (simp add: services_loadAPIStatus catalogue_of_servicesArray)
  have absent: "lookupServiceStatus d cat serviceName = ServiceStatus False False ''not_configured''
          \<and> findService (loadAPIStatus (StatusJson True (Some d)) st) serviceName
              = Some \<lparr>name = serviceName, category = cat, description = descr,
                      status = Disconnected, enabled = False, configured = False\<rparr>"
    if mem: "(cat, serviceName, descr) \<in> set catalogue"
    and none: "d cat = None \<or> (\<exists>entries. d cat = Some entries \<and> entries serviceName = None)"
  proof -
    have def: "lookupServiceStatus d cat serviceName = ServiceStatus False False ''not_configured''"
      using none by (rule lookupServiceStatus_absent [of d cat serviceName])
    show ?thesis
      by (simp add: def findService_loadAPIStatus [OF mem] toAPIService_def)
  qed
  note frame = loadAPIStatus_frame [of r st]
  note eff = effects_loadAPIStatus [of r st]
  note kept = services_loadAPIStatus [of r st]
  from listed absent frame(1-5) eff kept show ?thesis by blast
qed

theorem loadAPIStatus_lists_catalogue_default_disconnected_witness:
  "(''ai_services'', ''anthropic'', ''Claude AI for content generation'') \<in> set catalogue
   \<and> lookupServiceStatus Map.empty ''ai_services'' ''anthropic''
       = ServiceStatus False False ''not_configured''
   \<and> findService mountedState ''anthropic''
       = Some \<lparr>name = ''anthropic'', category = ''ai_services'',
               description = ''Claude AI for content generation'',
               status = Disconnected, enabled = False, configured = False\<rparr>
   \<and> length (services mountedState) = 16
   \<and> services (loadAPIStatus (StatusJson False None) mountedState) = services mountedState
   \<and> services (loadAPIStatus (StatusThrows ''Failed to fetch'') mountedState)
       = services mountedState"
proof -
  have kept1: "services (loadAPIStatus (StatusJson False None) mountedState) = services mountedState"
    using loadAPIStatus_lists_catalogue_default_disconnected
            [where r = "StatusJson False None" and st = mountedState and d = Map.empty]
    by simp
  have kept2: "services (loadAPIStatus (StatusThrows ''Failed to fetch'') mountedState)
                 = services mountedState"
    using loadAPIStatus_lists_catalogue_default_disconnected
            [where r = "StatusThrows ''Failed to fetch''" and st = mountedState and d = Map.empty]
    by simp
  note t = loadAPIStatus_lists_catalogue_default_disconnected
             [of Map.empty initialState "''ai_services''" "''anthropic''"
                 "''Claude AI for content generation''" "StatusJson True (Some Map.empty)"]
  have none: "Map.empty ''ai_services'' = (None :: (string \<Rightarrow> serviceStatus option) option)
              \<or> (\<exists>entries. Map.empty ''ai_services'' = Some entries \<and> entries ''anthropic'' = (None :: serviceStatus option))"
    by simp
  from t have listed: "map (\<lambda>s. (category s, name s, description s)) (services mountedState) = catalogue"
    unfolding mountedState_def by (rule conjunct1)
  have len: "length (services mountedState) = 16"
    using arg_cong [OF listed, of length] by (simp add: length_catalogue)
  from t [THEN conjunct2, THEN conjunct1] in_catalogue(2) none
  have "lookupServiceStatus Map.empty ''ai_services'' ''anthropic''
          = ServiceStatus False False ''not_configured''
        \<and> findService mountedState ''anthropic''
          = Some \<lparr>name = ''anthropic'', category = ''ai_services'',
               description = ''Claude AI for content generation'',
               status = Disconnected, enabled = False, configured = False\<rparr>"
    unfolding mountedState_def by blast
  with in_catalogue(2) len kept1 kept2 show ?thesis by blast
qed

text \<open>
  Before any configure call, with an answer that lists no service, every returned status
  is \<^verbatim>\<open>disconnected\<close>; with an answer that reports failure, no status is returned at all.
\<close>

theorem getStatus_not_configured_counterexample:
  "chipStatus mountedState ''anthropic'' = Disconnected
   \<and> set (map status (services mountedState)) = {Disconnected}
   \<and> services (loadAPIStatus (StatusJson False None) initialState) = []"
proof (intro conjI)
  show "chipStatus mountedState ''anthropic'' = Disconnected"
    unfolding mountedState_def
    by (simp add: chipStatus_loadAPIStatus [OF in_catalogue(2)] lookupServiceStatus_def)
  show "set (map status (services mountedState)) = {Disconnected}"
    by (rule all_disconnected)
  show "services (loadAPIStatus (StatusJson False None) initialState) = []"
    by (simp add: services_loadAPIStatus initialState_def)
qed

lemma saveDisabled_twitterDialog: "\<not> saveDisabled twitterDialog"
  by (simp add: saveDisabled_def twitterDialog_def setAdditionalConfig_def setApiKey_def
                handleConfigureService_def mountedState_def loadAPIStatus_frame initialState_def)

lemma chipStatus_handleSaveConfiguration:
  assumes "(cat, serviceName, descr) \<in> set catalogue"
  shows "chipStatus (handleSaveConfiguration (ConfigureJson True err) (StatusJson True (Some d)) st)
           serviceName
         = (if ssStatus (lookupServiceStatus d cat serviceName) = ''ready'' then Connected
            else if ssConfigured (lookupServiceStatus d cat serviceName) then Error
            else Disconnected)"
proof -
  have "services (handleSaveConfiguration (ConfigureJson True err) (StatusJson True (Some d)) st)
        = servicesArray d"
    by (simp add: services_handleSaveConfiguration services_loadAPIStatus)
  then show ?thesis
    by (simp add: chipStatus_def findService_def find_servicesArray [OF assms] toAPIService_def)
qed

text \<open>
  C2 (as amended). A successful save reloads the status, and the status shown for a
  service afterwards is what that answer says: connected when the server's word for it is
  \<^verbatim>\<open>ready\<close>, error when it is reported configured without being ready, disconnected
  otherwise; so a service reported configured is never shown disconnected. If the reload
  fails, the statuses stay as they were. A connection test, whatever its outcome, changes
  no status, and neither does opening the dialog or typing into it: connected comes from a
  status load only.
\<close>

theorem status_after_save_is_the_reloaded_status:
  "services (handleSaveConfiguration (ConfigureJson True err) statusResp st)
     = (case statusResp of
          StatusJson True (Some d') \<Rightarrow> servicesArray d'
        | _ \<Rightarrow> services st)
   \<and> ((cat, serviceName, descr) \<in> set catalogue \<longrightarrow>
        chipStatus (handleSaveConfiguration (ConfigureJson True err) (StatusJson True (Some d)) st)
          serviceName
        = (if ssStatus (lookupServiceStatus d cat serviceName) = ''ready'' then Connected
           else if ssConfigured (lookupServiceStatus d cat serviceName) then Error
           else Disconnected))
   \<and> ((cat, serviceName, descr) \<in> set catalogue
        \<and> ssConfigured (lookupServiceStatus d cat serviceName) \<longrightarrow>
        chipStatus (handleSaveConfiguration (ConfigureJson True err) (StatusJson True (Some d)) st)
          serviceName \<noteq> Disconnected)
   \<and> services (handleTestConnectionWith resolved n st) = services st
   \<and> services (handleConfigureService n c st) = services st
   \<and> services (setApiKey v st) = services st
   \<and> services (setAdditionalConfig key v st) = services st"
proof (intro conjI impI)
  show "services (handleSaveConfiguration (ConfigureJson True err) statusResp st)
     = (case statusResp of
          StatusJson True (Some d') \<Rightarrow> servicesArray d'
        | _ \<Rightarrow> services st)"
    by (simp add: services_handleSaveConfiguration services_loadAPIStatus)
  show "services (handleTestConnectionWith resolved n st) = services st"
    by (simp add: handleTestConnectionWith_eq)
  show "services (handleConfigureService n c st) = services st"
    by (simp add: handleConfigureService_def)
  show "services (setApiKey v st) = services st"
    by (simp add: setApiKey_def)
  show "services (setAdditionalConfig key v st) = services st"
    by (simp add: setAdditionalConfig_def)
next
  assume "(cat, serviceName, descr) \<in> set catalogue"
  then show "chipStatus (handleSaveConfiguration (ConfigureJson True err) (StatusJson True (Some d)) st)
          serviceName
        = (if ssStatus (lookupServiceStatus d cat serviceName) = ''ready'' then Connected
           else if ssConfigured (lookupServiceStatus d cat serviceName) then Error
           else Disconnected)"
    by (rule chipStatus_handleSaveConfiguration)
next
  assume "(cat, serviceName, descr) \<in> set catalogue
        \<and> ssConfigured (lookupServiceStatus d cat serviceName)"
  then show "chipStatus (handleSaveConfiguration (ConfigureJson True err) (StatusJson True (Some d)) st)
          serviceName \<noteq> Disconnected"
    by (simp add: chipStatus_handleSaveConfiguration [of cat serviceName descr])
qed

theorem status_after_save_is_the_reloaded_status_witness:
  "(''social_media'', ''twitter'', ''Twitter API v2'') \<in> set catalogue
   \<and> ssConfigured (lookupServiceStatus
         (Map.empty(''social_media'' \<mapsto> Map.empty(''twitter'' \<mapsto> ServiceStatus True True ''ready'')))
         ''social_media'' ''twitter'')
   \<and> chipStatus (handleSaveConfiguration (ConfigureJson True None) (twitterAnswer ''ready'')
                   twitterDialog) ''twitter'' = Connected
   \<and> chipStatus (handleSaveConfiguration (ConfigureJson True None) (twitterAnswer ''ready'')
                   twitterDialog) ''twitter'' \<noteq> Disconnected"
proof -
  let ?d = "Map.empty(''social_media'' \<mapsto> Map.empty(''twitter'' \<mapsto> ServiceStatus True True ''ready''))"
  from status_after_save_is_the_reloaded_status
         [where err = None and statusResp = "twitterAnswer ''ready''" and st = twitterDialog
            and cat = "''social_media''" and serviceName = "''twitter''"
            and descr = "''Twitter API v2''" and d = ?d,
          THEN conjunct2, THEN conjunct1, THEN mp, OF in_catalogue(1)]
  have shown: "chipStatus (handleSaveConfiguration (ConfigureJson True None) (twitterAnswer ''ready'')
                   twitterDialog) ''twitter'' = Connected"
    by (simp add: lookupServiceStatus_twitterAnswer twitterAnswer_def)
  have conf: "ssConfigured (lookupServiceStatus ?d ''social_media'' ''twitter'')"
    by (simp add: lookupServiceStatus_twitterAnswer)
  from status_after_save_is_the_reloaded_status
         [where err = None and st = twitterDialog
            and cat = "''social_media''" and serviceName = "''twitter''"
            and descr = "''Twitter API v2''" and d = ?d,
          THEN conjunct2, THEN conjunct2, THEN conjunct1] in_catalogue(1) conf
  have "chipStatus (handleSaveConfiguration (ConfigureJson True None) (twitterAnswer ''ready'')
                   twitterDialog) ''twitter'' \<noteq> Disconnected"
    by (simp add: twitterAnswer_def)
  with in_catalogue(1) shown conf show ?thesis by simp
qed

text \<open>
  The filled-in twitter dialog is saved successfully. With twitter then reported
  \<^verbatim>\<open>ready\<close> it is shown connected, with no connection test in between; reported configured
  under another status word it is shown in error.
\<close>

theorem configure_then_status_counterexample:
  "\<not> saveDisabled twitterDialog
   \<and> chipStatus (clickSave (ConfigureJson True None) (twitterAnswer ''ready'') twitterDialog)
        ''twitter'' = Connected
   \<and> chipStatus (clickSave (ConfigureJson True None) (twitterAnswer ''disconnected'') twitterDialog)
        ''twitter'' = Error"
proof -
  have chip: "\<And>word. chipStatus (handleSaveConfiguration (ConfigureJson True None)
                 (twitterAnswer word) twitterDialog) ''twitter''
               = (if word = ''ready'' then Connected else Error)"
    unfolding twitterAnswer_def
    by (simp add: chipStatus_handleSaveConfiguration [OF in_catalogue(1)]
                  lookupServiceStatus_twitterAnswer)
  show ?thesis
    by (simp add: clickSave_def saveDisabled_twitterDialog chip)
qed

lemma loadAPIStatus_secret_commute:
  "loadAPIStatus r (st\<lparr>apiKey := k, additionalConfig := a\<rparr>)
     = (loadAPIStatus r st)\<lparr>apiKey := k, additionalConfig := a\<rparr>"
  by (simp add: loadAPIStatus_def loadAPIStatusCatch_def showSnackbar_def Let_def
           split: statusResponse.splits option.splits)

lemma snackbar_loadAPIStatus:
  "snackbar (loadAPIStatus r st) =
     (case r of
        StatusThrows t \<Rightarrow> Snackbar True ''Error loading API status'' SevError
      | StatusJson success d \<Rightarrow>
          (if success \<and> d = None then Snackbar True ''Error loading API status'' SevError
           else snackbar st))"
  by (simp add: loadAPIStatus_def loadAPIStatusCatch_def showSnackbar_def Let_def
           split: statusResponse.splits option.splits)

lemma snackbar_handleSaveConfiguration:
  "snackbar (handleSaveConfiguration cr r st) =
     (case cr of
        ConfigureThrows t \<Rightarrow> Snackbar True ''Error configuring service'' SevError
      | ConfigureJson success err \<Rightarrow>
          (if success then
             (case r of
                StatusThrows t \<Rightarrow> Snackbar True ''Error loading API status'' SevError
              | StatusJson ok d \<Rightarrow>
                  (if ok \<and> d = None then Snackbar True ''Error loading API status'' SevError
                   else Snackbar True (dlgService (configDialog st) @ '' configured successfully'')
                          SevSuccess))
           else Snackbar True (''Configuration failed: '' @ errorText err) SevError))"
  by (simp add: handleSaveConfiguration_def Let_def showSnackbar_def snackbar_loadAPIStatus
           split: configureResponse.splits statusResponse.splits)

lemma consoleOutput_handleSaveConfiguration:
  "consoleOutput (handleSaveConfiguration cr r st) =
     consoleOutput st @
     (case cr of
        ConfigureThrows t \<Rightarrow> [ConsoleError ''Error configuring service:'' t]
      | ConfigureJson success err \<Rightarrow>
          (if success then
             (case r of
                StatusThrows t \<Rightarrow> [ConsoleError ''Error loading API status:'' t]
              | StatusJson ok d \<Rightarrow>
                  (if ok \<and> d = None then [ConsoleError ''Error loading API status:'' ''TypeError'']
                   else []))
           else []))"
  by (simp add: handleSaveConfiguration_def Let_def showSnackbar_def consoleOutput_def
                effects_loadAPIStatus
           split: configureResponse.splits statusResponse.splits)

text \<open>
  C8. Reading the status back never carries a typed secret. \<^verbatim>\<open>loadAPIStatus\<close> commutes with
  any change of the API key and the additional fields, so nothing it produces depends on
  them; the list it returns is built from the status answer alone, and its strings are the
  catalogue's categories, names and descriptions. After a save, whatever its outcome, the
  services, the snackbar and the console output are the same for every value of the key
  and of the additional fields.
\<close>

theorem read_back_is_independent_of_the_secret:
  "loadAPIStatus r (st\<lparr>apiKey := k, additionalConfig := a\<rparr>)
     = (loadAPIStatus r st)\<lparr>apiKey := k, additionalConfig := a\<rparr>
   \<and> services (loadAPIStatus r st)
       = (case r of StatusJson True (Some d') \<Rightarrow> servicesArray d' | _ \<Rightarrow> services st)
   \<and> map (\<lambda>s. (category s, name s, description s)) (servicesArray d) = catalogue
   \<and> services (handleSaveConfiguration cr r (st\<lparr>apiKey := k, additionalConfig := a\<rparr>))
       = services (handleSaveConfiguration cr r st)
   \<and> snackbar (handleSaveConfiguration cr r (st\<lparr>apiKey := k, additionalConfig := a\<rparr>))
       = snackbar (handleSaveConfiguration cr r st)
   \<and> consoleOutput (handleSaveConfiguration cr r (st\<lparr>apiKey := k, additionalConfig := a\<rparr>))
       = consoleOutput (handleSaveConfiguration cr r st)"
proof (intro conjI)
  show "loadAPIStatus r (st\<lparr>apiKey := k, additionalConfig := a\<rparr>)
     = (loadAPIStatus r st)\<lparr>apiKey := k, additionalConfig := a\<rparr>"
    by (rule loadAPIStatus_secret_commute)
  show "services (loadAPIStatus r st)
       = (case r of StatusJson True (Some d') \<Rightarrow> servicesArray d' | _ \<Rightarrow> services st)"
    by (rule services_loadAPIStatus)
  show "map (\<lambda>s. (category s, name s, description s)) (servicesArray d) = catalogue"
    by (rule catalogue_of_servicesArray)
  show "services (handleSaveConfiguration cr r (st\<lparr>apiKey := k, additionalConfig := a\<rparr>))
       = services (handleSaveConfiguration cr r st)"
    by (simp add: services_handleSaveConfiguration loadAPIStatus_secret_commute
             split: configureResponse.splits bool.splits)
  show "snackbar (handleSaveConfiguration cr r (st\<lparr>apiKey := k, additionalConfig := a\<rparr>))
       = snackbar (handleSaveConfiguration cr r st)"
    by (simp add: snackbar_handleSaveConfiguration
             split: configureResponse.splits statusResponse.splits)
  show "consoleOutput (handleSaveConfiguration cr r (st\<lparr>apiKey := k, additionalConfig := a\<rparr>))
       = consoleOutput (handleSaveConfiguration cr r st)"
  proof -
    have "consoleOutput (st\<lparr>apiKey := k, additionalConfig := a\<rparr>) = consoleOutput st"
      by (simp add: consoleOutput_def)
    then show ?thesis
      by (simp add: consoleOutput_handleSaveConfiguration)
  qed
qed

theorem read_back_is_independent_of_the_secret_witness:
  "services (handleSaveConfiguration (ConfigureJson True None) (twitterAnswer ''ready'')
              (setApiKey ''abc123'' twitterDialog))
     = services (handleSaveConfiguration (ConfigureJson True None) (twitterAnswer ''ready'')
                  twitterDialog)
   \<and> snackbar (handleSaveConfiguration (ConfigureJson True None) (twitterAnswer ''ready'')
                 (setApiKey ''abc123'' twitterDialog))
     = Snackbar True ''twitter configured successfully'' SevSuccess
   \<and> consoleOutput (handleSaveConfiguration (ConfigureJson True None) (twitterAnswer ''ready'')
                      (setApiKey ''abc123'' twitterDialog)) = []"
proof -
  have upd: "setApiKey ''abc123'' twitterDialog
             = twitterDialog\<lparr>apiKey := ''abc123'', additionalConfig := additionalConfig twitterDialog\<rparr>"
    by (simp add: setApiKey_def)
  have dlg: "dlgService (configDialog twitterDialog) = ''twitter''"
    by (simp add: twitterDialog_def setAdditionalConfig_def setApiKey_def handleConfigureService_def)
  have con: "consoleOutput twitterDialog = []"
    by (simp add: consoleOutput_def twitterDialog_def setAdditionalConfig_def setApiKey_def
                  handleConfigureService_def mountedState_def effects_loadAPIStatus initialState_def)
  note t = read_back_is_independent_of_the_secret
             [where r = "twitterAnswer ''ready''" and st = twitterDialog and k = "''abc123''"
                and a = "additionalConfig twitterDialog" and d = Map.empty
                and cr = "ConfigureJson True None"]
  show ?thesis
    using t unfolding upd [symmetric]
    by (simp add: snackbar_handleSaveConfiguration consoleOutput_handleSaveConfiguration dlg con
                  twitterAnswer_def)
qed

section \<open>Properties of the credential registry\<close>

lemma missingFields_empty_iff:
  "missingFields fs submitted = [] \<longleftrightarrow>
   (\<forall>f \<in> set fs. fieldRequired f = Some True \<longrightarrow> (\<exists>v. submitted (fieldKey f) = Some v \<and> v \<noteq> []))"
  by (auto simp: missingFields_def filter_empty_conv split: option.splits)

lemma set_missingFields:
  "set (missingFields fs submitted) =
   {fieldKey f | f. f \<in> set fs \<and> fieldRequired f = Some True \<and>
                    (submitted (fieldKey f) = None \<or> submitted (fieldKey f) = Some [])}"
proof -
  have absent: "\<And>m. (case m of None \<Rightarrow> True | Some v \<Rightarrow> v = []) \<longleftrightarrow> (m = None \<or> m = Some ([] :: string))"
    by (simp split: option.splits)
  show ?thesis
    unfolding missingFields_def absent by auto
qed

lemma missingFields_extra:
  assumes "dom extra \<inter> set (map fieldKey fs) = {}"
  shows "missingFields fs (submitted ++ extra) = missingFields fs submitted"
proof -
  have "\<And>f. f \<in> set fs \<Longrightarrow> (submitted ++ extra) (fieldKey f) = submitted (fieldKey f)"
    using assms by (auto simp: map_add_def split: option.splits)
  then show ?thesis
    unfolding missingFields_def by (auto intro!: filter_cong arg_cong [where f = "map fieldKey"])
qed

lemma configure_known:
  "descriptors service = Some fs \<Longrightarrow>
   configure encrypt descriptors service submitted reg =
     (if missingFields fs submitted \<noteq> [] then (Inl (ValidationError (missingFields fs submitted)), reg)
      else (Inr (),
            reg(service \<mapsto>
              \<lparr>secretFields =
                 (\<lambda>k. if k \<in> set (map fieldKey fs) then map_option encrypt (submitted k) else None),
               regStatus = reg_disconnected,
               lastTestedAt = None\<rparr>)))"
  by (simp add: configure_def Let_def)

lemma configure_error_keeps_registry:
  "fst (configure encrypt descriptors service submitted reg) = Inl e \<Longrightarrow>
   snd (configure encrypt descriptors service submitted reg) = reg"
  by (auto simp: configure_def Let_def split: option.splits if_splits)

text \<open>
  C1. For a service with a descriptor, the registry's configure succeeds exactly when
  every field the descriptor declares required is present and non-empty; when some
  required field is absent or empty it fails with a ValidationError that names exactly
  those fields and leaves the registry as it was; and field keys the descriptor does not
  declare are ignored: adding them changes neither the outcome nor what is stored.
\<close>

theorem configure_validates_required_fields:
  assumes known: "descriptors service = Some fs"
  shows "(fst (configure encrypt descriptors service submitted reg) = Inr ()
           \<longleftrightarrow> (\<forall>f \<in> set fs. fieldRequired f = Some True \<longrightarrow>
                   (\<exists>v. submitted (fieldKey f) = Some v \<and> v \<noteq> [])))
       \<and> ((\<exists>f \<in> set fs. fieldRequired f = Some True \<and>
              (submitted (fieldKey f) = None \<or> submitted (fieldKey f) = Some []))
           \<longrightarrow> (\<exists>missing.
                  configure encrypt descriptors service submitted reg
                    = (Inl (ValidationError missing), reg)
                  \<and> set missing =
                      {fieldKey f | f. f \<in> set fs \<and> fieldRequired f = Some True \<and>
                         (submitted (fieldKey f) = None \<or> submitted (fieldKey f) = Some [])}))
       \<and> (dom extra \<inter> set (map fieldKey fs) = {}
           \<longrightarrow> configure encrypt descriptors service (submitted ++ extra) reg
               = configure encrypt descriptors service submitted reg)"
proof (intro conjI impI)
  show "fst (configure encrypt descriptors service submitted reg) = Inr ()
           \<longleftrightarrow> (\<forall>f \<in> set fs. fieldRequired f = Some True \<longrightarrow>
                   (\<exists>v. submitted (fieldKey f) = Some v \<and> v \<noteq> []))"
    unfolding missingFields_empty_iff [symmetric]
    by (simp add: configure_known [where descriptors = descriptors and service = service, OF known])
next
  assume "\<exists>f \<in> set fs. fieldRequired f = Some True \<and>
              (submitted (fieldKey f) = None \<or> submitted (fieldKey f) = Some [])"
  then have "missingFields fs submitted \<noteq> []"
    unfolding missingFields_empty_iff by auto
  then have "configure encrypt descriptors service submitted reg
               = (Inl (ValidationError (missingFields fs submitted)), reg)"
    by (simp add: configure_known [where descriptors = descriptors and service = service, OF known])
  with set_missingFields [of fs submitted]
  show "\<exists>missing.
          configure encrypt descriptors service submitted reg = (Inl (ValidationError missing), reg)
          \<and> set missing =
              {fieldKey f | f. f \<in> set fs \<and> fieldRequired f = Some True \<and>
                 (submitted (fieldKey f) = None \<or> submitted (fieldKey f) = Some [])}"
    by blast
next
  assume disj: "dom extra \<inter> set (map fieldKey fs) = {}"
  have same: "\<And>k. k \<in> set (map fieldKey fs) \<Longrightarrow> (submitted ++ extra) k = submitted k"
    using disj by (auto simp: map_add_def split: option.splits)
  have "(\<lambda>k. if k \<in> set (map fieldKey fs) then map_option encrypt ((submitted ++ extra) k) else None)
      = (\<lambda>k. if k \<in> set (map fieldKey fs) then map_option encrypt (submitted k) else None)"
    using same by (intro ext) simp
  then show "configure encrypt descriptors service (submitted ++ extra) reg
               = configure encrypt descriptors service submitted reg"
    by (simp add: configure_known [where descriptors = descriptors and service = service, OF known] missingFields_extra [OF disj])
qed

lemma dialogDescriptors_twitter:
  "dialogDescriptors ''twitter'' = Some (dialogFields ''twitter'')"
  by (simp add: dialogDescriptors_def catalogue_eq)

lemma dialogFields_twitter:
  "dialogFields ''twitter'' =
     [Field ''apiKey'' ''API Key'' (Some ''password'') (Some True),
      Field ''api_secret'' ''API Secret'' (Some ''password'') (Some True),
      Field ''access_token'' ''Access Token'' None (Some True),
      Field ''access_secret'' ''Access Token Secret'' (Some ''password'') (Some True)]"
  by (simp add: dialogFields_def additionalConfigFields_def)

theorem configure_validates_required_fields_witness:
  "dialogDescriptors ''twitter'' = Some (dialogFields ''twitter'')
   \<and> fst (configure rev dialogDescriptors ''twitter'' (Map.empty(''apiKey'' \<mapsto> ''k'')) Map.empty)
       = Inl (ValidationError [''api_secret'', ''access_token'', ''access_secret''])
   \<and> fst (configure rev dialogDescriptors ''twitter'' twitterFields Map.empty) = Inr ()
   \<and> fst (configure rev dialogDescriptors ''twitter''
             (twitterFields ++ Map.empty(''bearer_token'' \<mapsto> ''b'')) Map.empty) = Inr ()"
proof -
  note t = configure_validates_required_fields
             [where descriptors = dialogDescriptors and service = "''twitter''"
                and encrypt = rev and reg = Map.empty, OF dialogDescriptors_twitter]
  have all: "\<forall>f \<in> set (dialogFields ''twitter''). fieldRequired f = Some True \<longrightarrow>
               (\<exists>v. twitterFields (fieldKey f) = Some v \<and> v \<noteq> [])"
    by (simp add: dialogFields_twitter twitterFields_def)
  have ok: "fst (configure rev dialogDescriptors ''twitter'' twitterFields Map.empty) = Inr ()"
    using t [where submitted = twitterFields, THEN conjunct1] all by blast
  have disj: "dom (Map.empty(''bearer_token'' \<mapsto> ''b'')) \<inter> set (map fieldKey (dialogFields ''twitter'')) = {}"
    by (simp add: dialogFields_twitter)
  have ok': "fst (configure rev dialogDescriptors ''twitter''
             (twitterFields ++ Map.empty(''bearer_token'' \<mapsto> ''b'')) Map.empty) = Inr ()"
    using t [where submitted = twitterFields and extra = "Map.empty(''bearer_token'' \<mapsto> ''b'')",
             THEN conjunct2, THEN conjunct2] disj ok by simp
  have bad: "fst (configure rev dialogDescriptors ''twitter'' (Map.empty(''apiKey'' \<mapsto> ''k'')) Map.empty)
       = Inl (ValidationError [''api_secret'', ''access_token'', ''access_secret''])"
    by (simp add: configure_def dialogDescriptors_twitter dialogFields_twitter missingFields_def)
  have lacking: "\<exists>f \<in> set (dialogFields ''twitter''). fieldRequired f = Some True \<and>
                  ((Map.empty(''apiKey'' \<mapsto> ''k'')) (fieldKey f) = None
                   \<or> (Map.empty(''apiKey'' \<mapsto> ''k'')) (fieldKey f) = Some [])"
    by (simp add: dialogFields_twitter)
  from t [where submitted = "Map.empty(''apiKey'' \<mapsto> ''k'')", THEN conjunct2, THEN conjunct1] lacking
  obtain missing where
    "configure rev dialogDescriptors ''twitter'' (Map.empty(''apiKey'' \<mapsto> ''k'')) Map.empty
       = (Inl (ValidationError missing), Map.empty)"
    by blast
  with bad have "missing = [''api_secret'', ''access_token'', ''access_secret'']"
    by simp
  with dialogDescriptors_twitter bad ok ok' show ?thesis by blast
qed

text \<open>
  C5. A configure that fails with a ValidationError leaves the registry, and with it the
  record and the status of the service, exactly as they were. On the panel's side, a save
  with an empty API key is refused before anything is sent (the Save button is disabled)
  and changes nothing, and a save that the server refuses, or that throws, leaves every
  displayed status as it was. In the scenario, twitter is connected, the configure with
  \<^verbatim>\<open>{apiKey: ""}\<close> fails, and twitter remains connected.
\<close>

theorem rejected_configure_changes_nothing:
  "(fst (configure encrypt descriptors service submitted reg) = Inl (ValidationError missing)
      \<longrightarrow> snd (configure encrypt descriptors service submitted reg) = reg
          \<and> registryStatusOf (snd (configure encrypt descriptors service submitted reg)) service
              = registryStatusOf reg service)
   \<and> (saveDisabled st \<longrightarrow> clickSave response statusResp st = st)
   \<and> services (handleSaveConfiguration (ConfigureJson False err) statusResp st) = services st
   \<and> services (handleSaveConfiguration (ConfigureThrows t) statusResp st) = services st"
proof (intro conjI impI)
  assume "fst (configure encrypt descriptors service submitted reg) = Inl (ValidationError missing)"
  then show same: "snd (configure encrypt descriptors service submitted reg) = reg"
    by (rule configure_error_keeps_registry)
  show "registryStatusOf (snd (configure encrypt descriptors service submitted reg)) service
              = registryStatusOf reg service"
    by (simp only: same)
next
  assume "saveDisabled st"
  then show "clickSave response statusResp st = st"
    by (simp add: clickSave_def)
qed (simp_all add: services_handleSaveConfiguration)

theorem rejected_configure_changes_nothing_witness:
  "fst (configure rev dialogDescriptors ''twitter'' (Map.empty(''apiKey'' \<mapsto> [])) connectedRegistry)
     = Inl (ValidationError [''apiKey'', ''api_secret'', ''access_token'', ''access_secret''])
   \<and> snd (configure rev dialogDescriptors ''twitter'' (Map.empty(''apiKey'' \<mapsto> [])) connectedRegistry)
     = connectedRegistry
   \<and> registryStatusOf
       (snd (configure rev dialogDescriptors ''twitter'' (Map.empty(''apiKey'' \<mapsto> [])) connectedRegistry))
       ''twitter'' = reg_connected
   \<and> saveDisabled connectedTwitterDialog
   \<and> clickSave (ConfigureJson False (Some ''Missing required field: apiKey'')) (StatusThrows [])
        connectedTwitterDialog = connectedTwitterDialog
   \<and> chipStatus connectedTwitterDialog ''twitter'' = Connected"
proof -
  note t = rejected_configure_changes_nothing
             [where encrypt = rev and descriptors = dialogDescriptors and service = "''twitter''"
                and submitted = "Map.empty(''apiKey'' \<mapsto> [])" and reg = connectedRegistry
                and missing = "[''apiKey'', ''api_secret'', ''access_token'', ''access_secret'']"
                and st = connectedTwitterDialog
                and response = "ConfigureJson False (Some ''Missing required field: apiKey'')"
                and statusResp = "StatusThrows []"]
  have bad: "fst (configure rev dialogDescriptors ''twitter'' (Map.empty(''apiKey'' \<mapsto> [])) connectedRegistry)
     = Inl (ValidationError [''apiKey'', ''api_secret'', ''access_token'', ''access_secret''])"
    by (simp add: configure_def dialogDescriptors_twitter dialogFields_twitter missingFields_def)
  have st0: "registryStatusOf connectedRegistry ''twitter'' = reg_connected"
    by (simp add: registryStatusOf_def connectedRegistry_def)
  have dis: "saveDisabled connectedTwitterDialog"
    by (simp add: saveDisabled_def connectedTwitterDialog_def handleConfigureService_def)
  have chip: "chipStatus connectedTwitterDialog ''twitter'' = Connected"
    using chipStatus_twitterAnswer [of "''ready''" mountedState]
    by (simp add: connectedTwitterDialog_def handleConfigureService_def chipStatus_def findService_def)
  from t bad st0 dis chip show ?thesis by simp
qed

text \<open>
  C7. \<^verbatim>\<open>removeConfiguration\<close> always succeeds; afterwards the service has no record and its
  status is not_configured; removing a second time, or removing a service that has no
  record, succeeds and changes nothing; the records of other services are untouched.
\<close>

theorem removeConfiguration_idempotent:
  "fst (removeConfiguration service reg) = Inr ()
   \<and> snd (removeConfiguration service reg) service = None
   \<and> registryStatusOf (snd (removeConfiguration service reg)) service = not_configured
   \<and> removeConfiguration service (snd (removeConfiguration service reg))
       = (Inr (), snd (removeConfiguration service reg))
   \<and> (reg service = None \<longrightarrow> removeConfiguration service reg = (Inr (), reg))
   \<and> (other \<noteq> service \<longrightarrow> snd (removeConfiguration service reg) other = reg other)"
proof (intro conjI impI)
  assume "reg service = None"
  then have "reg(service := None) = reg" by (intro ext) simp
  then show "removeConfiguration service reg = (Inr (), reg)"
    by (simp add: removeConfiguration_def)
qed (simp_all add: removeConfiguration_def registryStatusOf_def)

theorem removeConfiguration_idempotent_witness:
  "registryStatusOf connectedRegistry ''twitter'' = reg_connected
   \<and> fst (removeConfiguration ''twitter'' connectedRegistry) = Inr ()
   \<and> registryStatusOf (snd (removeConfiguration ''twitter'' connectedRegistry)) ''twitter''
       = not_configured
   \<and> removeConfiguration ''twitter'' (snd (removeConfiguration ''twitter'' connectedRegistry))
       = (Inr (), snd (removeConfiguration ''twitter'' connectedRegistry))
   \<and> removeConfiguration ''facebook'' connectedRegistry = (Inr (), connectedRegistry)
   \<and> snd (removeConfiguration ''facebook'' connectedRegistry) ''twitter''
       = connectedRegistry ''twitter''"
proof -
  have st0: "registryStatusOf connectedRegistry ''twitter'' = reg_connected"
    by (simp add: registryStatusOf_def connectedRegistry_def)
  have none: "connectedRegistry ''facebook'' = None"
    by (simp add: connectedRegistry_def)
  have neq: "''twitter'' \<noteq> ''facebook''" by simp
  from removeConfiguration_idempotent [of "''twitter''" connectedRegistry "''twitter''"]
       removeConfiguration_idempotent [of "''facebook''" connectedRegistry "''twitter''"]
       st0 none neq
  show ?thesis by blast
qed

end
